theory Spec2Isabelle
  imports Main
begin

section \<open>Values, rows and responses\<close>

text \<open>
  The handlers are JavaScript: a value carries its type at run time and \<open>===\<close> compares
  type and content. Only the values the handlers compare are modelled: numbers (integer
  valued; \<open>NaN\<close> is the number \<open>parseInt\<close> returns when it reads no digit) and strings.
  A primary key is a number under the model's default integer key (\<open>models/user.js\<close>
  declares no \<open>id\<close>) and a string under the migration's and the seeder's UUID key.
\<close>

datatype jsval = Num int | NaN | Str string

fun strict_eq :: "jsval \<Rightarrow> jsval \<Rightarrow> bool" where
  "strict_eq (Num a) (Num b) = (a = b)"
| "strict_eq (Str a) (Str b) = (a = b)"
| "strict_eq _ _ = False"

text \<open>A row of the \<open>Users\<close> table, with the attributes of \<open>User.init\<close> and the timestamps.\<close>

record user =
  user_id :: jsval
  username :: string
  email :: string
  password :: string
  role :: string
  createdAt :: nat
  updatedAt :: nat

text \<open>
  \<open>toJSON\<close> (\<open>models/user.js\<close>): the attributes as an object, the \<open>password\<close> key
  deleted. An object is its list of keys and values.
\<close>

definition toJSON :: "user \<Rightarrow> (string \<times> jsval) list" where
  "toJSON u =
     [(''id'', user_id u), (''username'', Str (username u)), (''email'', Str (email u)),
      (''role'', Str (role u)), (''createdAt'', Num (int (createdAt u))),
      (''updatedAt'', Num (int (updatedAt u)))]"

text \<open>
  The payload \<open>generateToken\<close> signs: \<open>userId\<close>, \<open>email\<close>, \<open>role\<close>, and the two
  timestamps the library adds (seconds).
\<close>

record claims =
  userId :: jsval
  claim_email :: string
  claim_role :: string
  iat :: nat
  expires :: nat

text \<open>
  Modelled from the spec: the \<open>jsonwebtoken\<close> library (\<open>jwt.sign\<close>, \<open>jwt.verify\<close>) is
  not part of the repository. Section 4.2 of the specification gives its contract: a token
  is a payload signed with a secret; verification checks the signature, then the expiry,
  and never trusts a payload whose signature fails. Signatures are taken as perfect, and a
  piece of header text is told apart by what the library makes of it:
  \<^item> \<open>Jws c k\<close> is the compact token of the payload \<open>c\<close> signed under the key \<open>k\<close>;
  \<^item> \<open>Jws_nbf t c k\<close> is such a token that also carries the not-before time \<open>t\<close>;
  \<^item> \<open>Garbled s\<close> is text of three well-formed parts with a token header whose payload
    is not JSON: decoding it throws the JSON parser's \<open>SyntaxError\<close>;
  \<^item> \<open>Text s\<close> is any other text: the library refuses it as no token.
\<close>

datatype wire = Text string | Garbled string | Jws claims string | Jws_nbf nat claims string

datatype jwt_error =
  JsonWebTokenError | TokenExpiredError | NotBeforeError | SyntaxError | SignError

text \<open>The JSON body a handler sends, and the status it sets (200 when it sets none).\<close>

record response =
  status :: nat
  success :: bool
  message :: string
  errors :: "string list option"
  data :: "((string \<times> jsval) list \<times> wire) option"

definition reply :: "nat \<Rightarrow> bool \<Rightarrow> string \<Rightarrow> response" where
  "reply st ok msg = \<lparr>status = st, success = ok, message = msg, errors = None, data = None\<rparr>"

text \<open>
  The store: the rows of \<open>Users\<close>, whether the database answers (a query on a database that
  does not answer throws, and every handler's \<open>catch\<close> turns that into a 500), and how many
  salts the random generator has handed out. Two things depend on which table the
  database holds, the one \<open>sync()\<close> makes from the model or the one the migration makes,
  and on the database itself, and are left open:
  \<^item> \<open>accepts_row\<close>: whether the column types accept a row's values (the role column is
    an enumeration: \<open>admin\<close>, \<open>patient\<close>, \<open>doctor\<close> in the model, \<open>admin\<close>, \<open>manager\<close>,
    \<open>staff\<close> in the migration);
  \<^item> \<open>key_cast\<close>: the key the primary key column reads from the text of a route
    parameter, \<open>None\<close> when it rejects the text and the query throws.
\<close>

record store =
  rows :: "user list"
  online :: bool
  drawn :: nat
  accepts_row :: "user \<Rightarrow> bool"
  key_cast :: "string \<Rightarrow> jsval option"

datatype orm_error =
    SequelizeValidationError "string list"
  | SequelizeUniqueConstraintError string
  | SequelizeDatabaseError
  | OtherError

text \<open>
  A value of a JSON request body, as \<open>express.json()\<close> delivers it (numbers integer valued).
\<close>

datatype json =
  JNull | JBool bool | JNum int | JStr string | JArr "json list" | JObj "(string \<times> json) list"

section \<open>parseInt\<close>

text \<open>
  \<open>parseInt(s)\<close> with no radix: leading white space is skipped, then an optional sign, then
  \<open>0x\<close> or \<open>0X\<close> selects radix 16 (radix 10 otherwise), and the longest run of digits is
  read; no digit gives \<open>NaN\<close>. The result is exact here; JavaScript rounds it to a double,
  which changes nothing below \<open>2^53\<close>.
\<close>

definition is_ws :: "char \<Rightarrow> bool" where
  "is_ws c = (c \<in> set [CHR 0x09, CHR 0x0A, CHR 0x0B, CHR 0x0C, CHR 0x0D, CHR 0x20, CHR 0xA0])"

definition digit_of :: "nat \<Rightarrow> char \<Rightarrow> nat option" where
  "digit_of radix c =
     (let n = of_char c :: nat;
          v = (if 48 \<le> n \<and> n \<le> 57 then Some (n - 48)
               else if 97 \<le> n \<and> n \<le> 122 then Some (n - 87)
               else if 65 \<le> n \<and> n \<le> 90 then Some (n - 55)
               else None)
      in case v of None \<Rightarrow> None | Some d \<Rightarrow> if d < radix then Some d else None)"

fun read_digits :: "nat \<Rightarrow> string \<Rightarrow> nat list" where
  "read_digits radix [] = []"
| "read_digits radix (c # cs) =
     (case digit_of radix c of None \<Rightarrow> [] | Some d \<Rightarrow> d # read_digits radix cs)"

definition digits_value :: "nat \<Rightarrow> nat list \<Rightarrow> nat" where
  "digits_value radix ds = foldl (\<lambda>acc d. acc * radix + d) 0 ds"

definition sign_split :: "string \<Rightarrow> bool \<times> string" where
  "sign_split t =
     (case t of
        c # r \<Rightarrow> if c = CHR ''-'' then (True, r)
                 else if c = CHR ''+'' then (False, r) else (False, t)
      | [] \<Rightarrow> (False, t))"

definition radix_split :: "string \<Rightarrow> nat \<times> string" where
  "radix_split t =
     (case t of
        a # b # r \<Rightarrow> if a = CHR ''0'' \<and> (b = CHR ''x'' \<or> b = CHR ''X'') then (16, r)
                     else (10, t)
      | _ \<Rightarrow> (10, t))"

definition parseInt :: "string \<Rightarrow> jsval" where
  "parseInt s =
     (case sign_split (dropWhile is_ws s) of (neg, t1) \<Rightarrow>
      case radix_split t1 of (radix, t2) \<Rightarrow>
        let ds = read_digits radix t2
        in if ds = [] then NaN
           else Num ((if neg then -1 else 1) * int (digits_value radix ds)))"

section \<open>The admin controller: deleteUser\<close>

text \<open>
  \<open>User.findByPk(userId)\<close> with the route parameter, a string: the database reads the
  parameter as a key of the column's type and looks the key up; a parameter the column
  rejects makes the query throw.
\<close>

definition findByPk_param :: "store \<Rightarrow> string \<Rightarrow> orm_error + user option" where
  "findByPk_param db s =
     (if \<not> online db then Inl SequelizeDatabaseError
      else case key_cast db s of
             None \<Rightarrow> Inl SequelizeDatabaseError
           | Some k \<Rightarrow> Inr (find (\<lambda>u. user_id u = k) (rows db)))"

definition destroy :: "store \<Rightarrow> user \<Rightarrow> orm_error + store" where
  "destroy db u =
     (if online db then Inr (db\<lparr>rows := filter (\<lambda>r. user_id r \<noteq> user_id u) (rows db)\<rparr>)
      else Inl SequelizeDatabaseError)"

text \<open>
  \<open>deleteUser\<close> (admin controller). \<open>admin\<close> is \<open>req.user\<close>, set by the authentication
  middleware the admin router applies to every route; \<open>param\<close> is \<open>req.params.userId\<close>.
\<close>

definition deleteUser :: "store \<Rightarrow> user \<Rightarrow> string \<Rightarrow> store \<times> response" where
  "deleteUser db admin param =
     (if strict_eq (parseInt param) (user_id admin)
      then (db, reply 400 False ''Cannot delete your own account'')
      else case findByPk_param db param of
             Inl e \<Rightarrow> (db, reply 500 False ''Internal server error'')
           | Inr None \<Rightarrow> (db, reply 404 False ''User not found'')
           | Inr (Some u) \<Rightarrow>
               (case destroy db u of
                  Inl e \<Rightarrow> (db, reply 500 False ''Internal server error'')
                | Inr db' \<Rightarrow> (db', reply 200 True ''User deleted successfully'')))"

section \<open>Libraries and configuration the handlers are given\<close>

text \<open>
  \<open>bcryptjs\<close>, the e-mail check of the model's \<open>isEmail\<close> validator and the ORM are
  libraries outside the repository; the handlers are modelled for any such functions.
  \<open>bcrypt_salt n\<close> is the salt \<open>genSalt(10)\<close> returns on its call number \<open>n\<close>. What the ORM
  and the database make of an attribute that is not a string (a number, an array, an
  object) is left open too: \<open>orm_find_other\<close> is the answer of \<open>findOne\<close> to such an
  e-mail, \<open>orm_create_other\<close> the outcome of \<open>create\<close> when an attribute is no string.
\<close>

record libs =
  bcrypt_hash :: "string \<Rightarrow> string \<Rightarrow> string"
  bcrypt_compare :: "string \<Rightarrow> string \<Rightarrow> bool"
  bcrypt_salt :: "nat \<Rightarrow> string"
  isEmail :: "string \<Rightarrow> bool"
  orm_find_other :: "json \<Rightarrow> store \<Rightarrow> orm_error + user option"
  orm_create_other ::
    "nat \<Rightarrow> jsval \<Rightarrow> store \<Rightarrow> json \<Rightarrow> json \<Rightarrow> json \<Rightarrow> json \<Rightarrow> store \<times> (orm_error + user)"

text \<open>
  \<open>process.env\<close>: the signing secret, and the token lifetime in whole seconds (\<open>None\<close>
  when the variable is unset or empty).
\<close>

record env =
  JWT_SECRET :: "string option"
  JWT_EXPIRES_IN :: "nat option"

section \<open>Tokens\<close>

text \<open>
  \<open>jwt.sign\<close> refuses a missing or empty secret; otherwise it stamps the payload with the
  issue time and the expiry and signs it.
\<close>

definition jwt_sign ::
  "jsval \<Rightarrow> string \<Rightarrow> string \<Rightarrow> string option \<Rightarrow> nat \<Rightarrow> nat \<Rightarrow> jwt_error + wire" where
  "jwt_sign uid em rl secret lifetime now =
     (case secret of
        None \<Rightarrow> Inl SignError
      | Some k \<Rightarrow>
          if k = [] then Inl SignError
          else Inr (Jws \<lparr>userId = uid, claim_email = em, claim_role = rl,
                          iat = now, expires = now + lifetime\<rparr> k))"

text \<open>
  \<open>jwt.verify\<close> decodes first: text that is no token raises \<open>JsonWebTokenError\<close>, and a
  payload that is not JSON lets the parser's \<open>SyntaxError\<close> out. Then a missing secret or
  a signature under another key raise \<open>JsonWebTokenError\<close>. Only then are the times read:
  a token not yet valid raises \<open>NotBeforeError\<close>, a token at or past its expiry raises
  \<open>TokenExpiredError\<close>.
\<close>

definition signature_ok :: "string \<Rightarrow> string option \<Rightarrow> bool" where
  "signature_ok k secret = (case secret of None \<Rightarrow> False | Some k' \<Rightarrow> k' \<noteq> [] \<and> k = k')"

definition jwt_verify :: "wire \<Rightarrow> string option \<Rightarrow> nat \<Rightarrow> jwt_error + claims" where
  "jwt_verify t secret now =
     (case t of
        Text s \<Rightarrow> Inl JsonWebTokenError
      | Garbled s \<Rightarrow> Inl SyntaxError
      | Jws c k \<Rightarrow>
          if \<not> signature_ok k secret then Inl JsonWebTokenError
          else if expires c \<le> now then Inl TokenExpiredError
          else Inr c
      | Jws_nbf nbf c k \<Rightarrow>
          if \<not> signature_ok k secret then Inl JsonWebTokenError
          else if now < nbf then Inl NotBeforeError
          else if expires c \<le> now then Inl TokenExpiredError
          else Inr c)"

text \<open>\<open>generateToken\<close> (auth controller): seven days when no lifetime is configured.\<close>

definition expiresIn :: "env \<Rightarrow> nat" where
  "expiresIn e = (case JWT_EXPIRES_IN e of None \<Rightarrow> 7 * 24 * 60 * 60 | Some n \<Rightarrow> n)"

definition generateToken :: "env \<Rightarrow> nat \<Rightarrow> user \<Rightarrow> jwt_error + wire" where
  "generateToken e now u =
     jwt_sign (user_id u) (email u) (role u) (JWT_SECRET e) (expiresIn e) now"

section \<open>The middleware\<close>

text \<open>A middleware answers the request itself, or calls \<open>next()\<close> with \<open>req.user\<close> set.\<close>

datatype outcome = Respond response | Next user

definition findByPk :: "store \<Rightarrow> jsval \<Rightarrow> orm_error + user option" where
  "findByPk db k =
     (if online db then Inr (find (\<lambda>u. user_id u = k) (rows db))
      else Inl SequelizeDatabaseError)"

text \<open>
  \<open>authenticateToken\<close>. The \<open>Authorization\<close> header is given as \<open>split\<close> on a space returns it,
  the list of its pieces between single spaces; the token is the piece at index 1.
  A missing header, a header of one piece and an empty piece are all falsy. The \<open>catch\<close>
  tests the error's name for \<open>JsonWebTokenError\<close> and \<open>TokenExpiredError\<close>; every other
  error gets the last answer.
\<close>

definition authenticateToken :: "env \<Rightarrow> store \<Rightarrow> nat \<Rightarrow> wire list option \<Rightarrow> outcome" where
  "authenticateToken e db now authHeader =
     (case authHeader of
        None \<Rightarrow> Respond (reply 401 False ''Access token required'')
      | Some parts \<Rightarrow>
          (case parts of
             scheme # token # rest \<Rightarrow>
               if token = Text [] then Respond (reply 401 False ''Access token required'')
               else
                 (case jwt_verify token (JWT_SECRET e) now of
                    Inl JsonWebTokenError \<Rightarrow> Respond (reply 401 False ''Invalid token'')
                  | Inl TokenExpiredError \<Rightarrow> Respond (reply 401 False ''Token expired'')
                  | Inl other \<Rightarrow> Respond (reply 500 False ''Authentication error'')
                  | Inr decoded \<Rightarrow>
                      (case findByPk db (userId decoded) of
                         Inl err \<Rightarrow> Respond (reply 500 False ''Authentication error'')
                       | Inr None \<Rightarrow>
                           Respond (reply 401 False ''Invalid token - user not found'')
                       | Inr (Some u) \<Rightarrow> Next u))
           | _ \<Rightarrow> Respond (reply 401 False ''Access token required'')))"

text \<open>\<open>Array.prototype.join\<close>.\<close>

fun join :: "string \<Rightarrow> string list \<Rightarrow> string" where
  "join sep [] = []"
| "join sep [x] = x"
| "join sep (x # y # ys) = x @ sep @ join sep (y # ys)"

text \<open>\<open>requireRole\<close> (RBAC middleware); \<open>req_user\<close> is \<open>req.user\<close>, if any.\<close>

definition requireRole :: "string list \<Rightarrow> user option \<Rightarrow> outcome" where
  "requireRole allowedRoles req_user =
     (case req_user of
        None \<Rightarrow> Respond (reply 401 False ''Authentication required'')
      | Some u \<Rightarrow>
          if role u \<notin> set allowedRoles
          then Respond (reply 403 False
                  (''Access denied. Required role: '' @ join '' or '' allowedRoles))
          else Next u)"

definition requireAdmin :: "user option \<Rightarrow> outcome" where
  "requireAdmin = requireRole [''admin'']"

definition requireDoctor :: "user option \<Rightarrow> outcome" where
  "requireDoctor = requireRole [''admin'', ''doctor'']"

definition requirePatient :: "user option \<Rightarrow> outcome" where
  "requirePatient = requireRole [''admin'', ''patient'', ''doctor'']"

text \<open>
  A router that applies \<open>authenticateToken\<close> and then a role middleware, as the admin
  router does with \<open>requireAdmin\<close>: the second runs only when the first called \<open>next()\<close>.
\<close>

definition guarded :: "string list \<Rightarrow> env \<Rightarrow> store \<Rightarrow> nat \<Rightarrow> wire list option \<Rightarrow> outcome" where
  "guarded allowedRoles e db now authHeader =
     (case authenticateToken e db now authHeader of
        Respond r \<Rightarrow> Respond r
      | Next u \<Rightarrow> requireRole allowedRoles (Some u))"

section \<open>The User model\<close>

text \<open>
  The validators of \<open>User.init\<close>, run before the hooks and the insert; the messages are
  collected in the order of the attributes.
\<close>

definition validate_user :: "libs \<Rightarrow> string \<Rightarrow> string \<Rightarrow> string \<Rightarrow> string \<Rightarrow> string list" where
  "validate_user L un em pw rl =
     (if 3 \<le> length un \<and> length un \<le> 50 then []
      else [''Username must be between 3 and 50 characters'']) @
     (if isEmail L em then [] else [''Must be a valid email address'']) @
     (if 6 \<le> length pw \<and> length pw \<le> 100 then []
      else [''Password must be at least 6 characters long'']) @
     (if rl \<in> set [''admin'', ''patient'', ''doctor''] then []
      else [''Role must be admin, patient, or doctor''])"

text \<open>The hooks. The second component is the number of salts drawn so far.\<close>

definition beforeCreate :: "libs \<Rightarrow> user \<times> nat \<Rightarrow> user \<times> nat" where
  "beforeCreate L ug =
     (case ug of (u, g) \<Rightarrow>
        if password u \<noteq> []
        then (u\<lparr>password := bcrypt_hash L (password u) (bcrypt_salt L g)\<rparr>, Suc g)
        else (u, g))"

text \<open>
  Modelled from the spec: the instance bookkeeping of the ORM is not part of the
  repository. An instance holds its current values and the keys changed since it was
  loaded; assigning an attribute marks its key when the value differs from the current
  one, and \<open>changed(key)\<close> asks for the mark (the password field changed in that write).
\<close>

record model_instance =
  dataValues :: user
  changedKeys :: "string list"

definition loaded :: "user \<Rightarrow> model_instance" where
  "loaded u = \<lparr>dataValues = u, changedKeys = []\<rparr>"

definition set_password :: "model_instance \<Rightarrow> string \<Rightarrow> model_instance" where
  "set_password i v =
     (if v \<noteq> password (dataValues i)
      then i\<lparr>dataValues := (dataValues i)\<lparr>password := v\<rparr>,
             changedKeys := ''password'' # changedKeys i\<rparr>
      else i)"

definition changed :: "model_instance \<Rightarrow> string \<Rightarrow> bool" where
  "changed i key = (key \<in> set (changedKeys i))"

definition beforeUpdate :: "libs \<Rightarrow> model_instance \<times> nat \<Rightarrow> model_instance \<times> nat" where
  "beforeUpdate L ig =
     (case ig of (i, g) \<Rightarrow>
        if changed i ''password''
        then (i\<lparr>dataValues := (dataValues i)
                 \<lparr>password := bcrypt_hash L (password (dataValues i)) (bcrypt_salt L g)\<rparr>\<rparr>,
              Suc g)
        else (i, g))"

text \<open>
  \<open>validatePassword\<close>: \<open>bcrypt.compare\<close> of the candidate with the stored hash. The
  library rejects a candidate that is not a string, and the \<open>await\<close> throws.
\<close>

definition validatePassword :: "libs \<Rightarrow> user \<Rightarrow> json \<Rightarrow> orm_error + bool" where
  "validatePassword L u candidate =
     (case candidate of
        JStr pw \<Rightarrow> Inr (bcrypt_compare L pw (password u))
      | _ \<Rightarrow> Inl OtherError)"

text \<open>
  \<open>User.create\<close> with string attributes: validation, then \<open>beforeCreate\<close>, then the insert,
  where the database first reads the values into the column types and then enforces the
  two unique columns (the index on \<open>username\<close> is checked before the one on \<open>email\<close>).
  \<open>key\<close> is the primary key the database gives the row and \<open>now\<close> the time.
\<close>

definition create_strings ::
  "libs \<Rightarrow> nat \<Rightarrow> jsval \<Rightarrow> store \<Rightarrow> string \<Rightarrow> string \<Rightarrow> string \<Rightarrow> string
     \<Rightarrow> store \<times> (orm_error + user)" where
  "create_strings L now key db un em pw rl =
     (let msgs = validate_user L un em pw rl in
      if msgs \<noteq> [] then (db, Inl (SequelizeValidationError msgs))
      else
        case beforeCreate L
               (\<lparr>user_id = key, username = un, email = em, password = pw, role = rl,
                 createdAt = now, updatedAt = now\<rparr>, drawn db) of
          (u, g) \<Rightarrow>
            let db1 = db\<lparr>drawn := g\<rparr> in
            if \<not> online db then (db1, Inl SequelizeDatabaseError)
            else if \<not> accepts_row db u then (db1, Inl SequelizeDatabaseError)
            else if un \<in> username ` set (rows db)
              then (db1, Inl (SequelizeUniqueConstraintError ''username''))
            else if em \<in> email ` set (rows db)
              then (db1, Inl (SequelizeUniqueConstraintError ''email''))
            else (db1\<lparr>rows := rows db @ [u]\<rparr>, Inr u))"

definition User_create ::
  "libs \<Rightarrow> nat \<Rightarrow> jsval \<Rightarrow> store \<Rightarrow> json \<Rightarrow> json \<Rightarrow> json \<Rightarrow> json
     \<Rightarrow> store \<times> (orm_error + user)" where
  "User_create L now key db un em pw rl =
     (case (un, em, pw, rl) of
        (JStr u, JStr e, JStr p, JStr r) \<Rightarrow> create_strings L now key db u e p r
      | _ \<Rightarrow> orm_create_other L now key db un em pw rl)"

definition findOne_email :: "libs \<Rightarrow> store \<Rightarrow> json \<Rightarrow> orm_error + user option" where
  "findOne_email L db em =
     (if \<not> online db then Inl SequelizeDatabaseError
      else case em of
             JStr s \<Rightarrow> Inr (find (\<lambda>u. email u = s) (rows db))
           | _ \<Rightarrow> orm_find_other L em db)"

section \<open>The auth controller\<close>

text \<open>
  A field of the request body is absent or a JSON value. \<open>!x\<close> holds of an absent field,
  of \<open>null\<close>, \<open>false\<close>, zero and the empty string; \<open>x || d\<close> is \<open>d\<close> for such an \<open>x\<close>.
\<close>

record body =
  body_username :: "json option"
  body_email :: "json option"
  body_password :: "json option"
  body_role :: "json option"

fun falsy_json :: "json \<Rightarrow> bool" where
  "falsy_json JNull = True"
| "falsy_json (JBool b) = (\<not> b)"
| "falsy_json (JNum n) = (n = 0)"
| "falsy_json (JStr s) = (s = [])"
| "falsy_json (JArr xs) = False"
| "falsy_json (JObj kvs) = False"

definition falsy :: "json option \<Rightarrow> bool" where
  "falsy x = (case x of None \<Rightarrow> True | Some v \<Rightarrow> falsy_json v)"

definition or_default :: "json option \<Rightarrow> string \<Rightarrow> json" where
  "or_default x d = (case x of None \<Rightarrow> JStr d | Some v \<Rightarrow> if falsy_json v then JStr d else v)"

definition register ::
  "libs \<Rightarrow> env \<Rightarrow> nat \<Rightarrow> jsval \<Rightarrow> store \<Rightarrow> body \<Rightarrow> store \<times> response" where
  "register L e now key db b =
     (case (body_username b, body_email b, body_password b) of
        (Some un, Some em, Some pw) \<Rightarrow>
          if falsy_json un \<or> falsy_json em \<or> falsy_json pw
          then (db, reply 400 False ''Username, email, and password are required'')
          else
            (case User_create L now key db un em pw (or_default (body_role b) ''patient'') of
               (db', Inl (SequelizeValidationError msgs)) \<Rightarrow>
                 (db', (reply 400 False ''Validation failed'')\<lparr>errors := Some msgs\<rparr>)
             | (db', Inl (SequelizeUniqueConstraintError field)) \<Rightarrow>
                 (db', reply 400 False (field @ '' already exists''))
             | (db', Inl other) \<Rightarrow>
                 (db', reply 500 False ''Internal server error'')
             | (db', Inr u) \<Rightarrow>
                 (case generateToken e now u of
                    Inl err \<Rightarrow> (db', reply 500 False ''Internal server error'')
                  | Inr token \<Rightarrow>
                      (db', (reply 201 True ''User registered successfully'')
                              \<lparr>data := Some (toJSON u, token)\<rparr>)))
      | _ \<Rightarrow> (db, reply 400 False ''Username, email, and password are required''))"

definition login :: "libs \<Rightarrow> env \<Rightarrow> nat \<Rightarrow> store \<Rightarrow> body \<Rightarrow> response" where
  "login L e now db b =
     (case (body_email b, body_password b) of
        (Some em, Some pw) \<Rightarrow>
          if falsy_json em \<or> falsy_json pw
          then reply 400 False ''Email and password are required''
          else
            (case findOne_email L db em of
               Inl err \<Rightarrow> reply 500 False ''Internal server error''
             | Inr None \<Rightarrow> reply 401 False ''Invalid email or password''
             | Inr (Some u) \<Rightarrow>
                 (case validatePassword L u pw of
                    Inl err \<Rightarrow> reply 500 False ''Internal server error''
                  | Inr False \<Rightarrow> reply 401 False ''Invalid email or password''
                  | Inr True \<Rightarrow>
                      (case generateToken e now u of
                         Inl err \<Rightarrow> reply 500 False ''Internal server error''
                       | Inr token \<Rightarrow>
                           (reply 200 True ''Login successful'')
                             \<lparr>data := Some (toJSON u, token)\<rparr>)))
      | _ \<Rightarrow> reply 400 False ''Email and password are required'')"

section \<open>Example data\<close>

text \<open>
  A row as the seeder inserts it: the e-mail is the user name at \<open>example.com\<close>, and every
  seeded row holds the same hash.
\<close>

definition seeded :: "jsval \<Rightarrow> string \<Rightarrow> string \<Rightarrow> user" where
  "seeded key name rl =
     \<lparr>user_id = key, username = name, email = name @ ''@example.com'',
      password = ''$2a$10$seed'', role = rl, createdAt = 0, updatedAt = 0\<rparr>"

text \<open>
  Stand-ins for the libraries, used only to run the examples: a hash that writes the salt
  in front of the password, the comparison that accepts exactly the seeded password
  against the seeded hash, an e-mail check that looks for the \<open>@\<close>, and an ORM that
  throws on every attribute that is not a string.
\<close>

definition stub_libs :: libs where
  "stub_libs =
     \<lparr>bcrypt_hash = (\<lambda>pw salt. salt @ pw),
      bcrypt_compare = (\<lambda>pw h. pw = ''password123'' \<and> h = ''$2a$10$seed''),
      bcrypt_salt = (\<lambda>n. replicate (Suc n) CHR ''s''),
      isEmail = (\<lambda>s. CHR ''@'' \<in> set s),
      orm_find_other = (\<lambda>v db. Inl SequelizeDatabaseError),
      orm_create_other = (\<lambda>now key db un em pw rl. (db, Inl OtherError))\<rparr>"

definition example_env :: env where
  "example_env = \<lparr>JWT_SECRET = Some ''secret'', JWT_EXPIRES_IN = None\<rparr>"

text \<open>
  Two databases for the examples. \<open>example_db\<close> holds the table \<open>sync()\<close> makes from the
  model: integer keys, read here from an unsigned decimal numeral only (a real database
  reads more spellings), and a role column of \<open>admin\<close>, \<open>patient\<close>, \<open>doctor\<close>.
  \<open>migrated_db\<close> holds the migration's table: UUID keys, read here as the text stands,
  and a role column of \<open>admin\<close>, \<open>manager\<close>, \<open>staff\<close>.
\<close>

definition numeral_key :: "string \<Rightarrow> jsval option" where
  "numeral_key s =
     (let ds = read_digits 10 s
      in if ds = [] \<or> length ds \<noteq> length s then None
         else Some (Num (int (digits_value 10 ds))))"

definition example_db :: "user list \<Rightarrow> store" where
  "example_db us =
     \<lparr>rows = us, online = True, drawn = 0,
      accepts_row = (\<lambda>u. role u \<in> set [''admin'', ''patient'', ''doctor'']),
      key_cast = numeral_key\<rparr>"

definition migrated_db :: "user list \<Rightarrow> store" where
  "migrated_db us =
     \<lparr>rows = us, online = True, drawn = 0,
      accepts_row = (\<lambda>u. role u \<in> set [''admin'', ''manager'', ''staff'']),
      key_cast = (\<lambda>s. Some (Str s))\<rparr>"

section \<open>The self-deletion guard\<close>

lemma parseInt_one: "parseInt ''1'' = Num 1"
  by (simp add: parseInt_def sign_split_def radix_split_def is_ws_def digit_of_def
      digits_value_def)

text \<open>
  Claim C1, as stated, asks for status 403 whenever the target of an administrative delete
  is the acting admin. At the admin with key 1 asking for user 1, the admin's own row, the
  guard does fire and leaves the store alone, but the status it sets is 400.
\<close>

theorem deleteUser_self_is_400_not_403:
  "findByPk_param (example_db [seeded (Num 1) ''admin'' ''admin'']) ''1''
       = Inr (Some (seeded (Num 1) ''admin'' ''admin''))
   \<and> deleteUser (example_db [seeded (Num 1) ''admin'' ''admin''])
        (seeded (Num 1) ''admin'' ''admin'') ''1''
       = (example_db [seeded (Num 1) ''admin'' ''admin''],
          reply 400 False ''Cannot delete your own account'')
   \<and> status (snd (deleteUser (example_db [seeded (Num 1) ''admin'' ''admin''])
         (seeded (Num 1) ''admin'' ''admin'') ''1'')) \<noteq> 403"
  by (simp add: deleteUser_def seeded_def parseInt_one reply_def findByPk_param_def
      example_db_def numeral_key_def digit_of_def digits_value_def)

text \<open>
  Claim C1, amended: when \<open>parseInt\<close> reads the route parameter as the acting admin's own
  numeric key, \<open>deleteUser\<close> answers 400 with the message "Cannot delete your own account"
  and leaves the store untouched; the guard stands before the lookup, so this holds whether
  or not the target exists and whether or not the database answers.
\<close>

theorem deleteUser_self_guard:
  assumes "parseInt param = Num n" and "user_id admin = Num n"
  shows "deleteUser db admin param = (db, reply 400 False ''Cannot delete your own account'')"
  using assms by (simp add: deleteUser_def)

theorem deleteUser_self_guard_witness:
  "deleteUser (example_db []) (seeded (Num 1) ''admin'' ''admin'') ''1''
     = (example_db [], reply 400 False ''Cannot delete your own account'')"
  by (rule deleteUser_self_guard [where n = 1]) (simp_all add: parseInt_one seeded_def)

text \<open>
  Under the migration's UUID key the acting admin's key is a string, which is never
  \<open>===\<close> to the number \<open>parseInt\<close> returns: the guard does not fire and the admin's own row
  is deleted.
\<close>

lemma deleteUser_uuid_key_self:
  "deleteUser
      (migrated_db [seeded (Str ''550e8400-e29b-41d4-a716-446655440000'') ''admin'' ''admin''])
      (seeded (Str ''550e8400-e29b-41d4-a716-446655440000'') ''admin'' ''admin'')
      ''550e8400-e29b-41d4-a716-446655440000''
   = (migrated_db [], reply 200 True ''User deleted successfully'')"
  by (simp add: deleteUser_def seeded_def parseInt_def sign_split_def radix_split_def
      is_ws_def digit_of_def digits_value_def findByPk_param_def destroy_def migrated_db_def)

section \<open>Authorization reads the live role\<close>

lemma authenticateToken_role_blind:
  "authenticateToken e db now (Some (scheme # Jws (c\<lparr>claim_role := r\<rparr>) k # rest))
     = authenticateToken e db now (Some (scheme # Jws c k # rest))"
  by (simp add: authenticateToken_def jwt_verify_def signature_ok_def split: option.splits)

text \<open>
  Claim C2: behind \<open>authenticateToken\<close>, the role check is made on the row the middleware
  has just loaded from the store. The outcome does not depend on the role written in the
  token, and a request whose token verifies and whose subject is found goes on exactly when
  the role of the stored row is among the allowed ones.
\<close>

theorem guarded_decides_on_live_role:
  "guarded allowed e db now (Some (scheme # Jws (c\<lparr>claim_role := r\<rparr>) k # rest))
     = guarded allowed e db now (Some (scheme # Jws c k # rest))
   \<and> (jwt_verify token (JWT_SECRET e) now = Inr d \<and> findByPk db (userId d) = Inr (Some u)
        \<longrightarrow> guarded allowed e db now (Some (scheme # token # rest))
              = requireRole allowed (Some u)
          \<and> (guarded allowed e db now (Some (scheme # token # rest)) = Next u)
              = (role u \<in> set allowed))"
proof (intro conjI impI)
  show "guarded allowed e db now (Some (scheme # Jws (c\<lparr>claim_role := r\<rparr>) k # rest))
     = guarded allowed e db now (Some (scheme # Jws c k # rest))"
    by (simp add: guarded_def authenticateToken_role_blind)
next
  assume a: "jwt_verify token (JWT_SECRET e) now = Inr d \<and> findByPk db (userId d) = Inr (Some u)"
  then have "token \<noteq> Text []" by (auto simp: jwt_verify_def signature_ok_def)
  with a have auth: "authenticateToken e db now (Some (scheme # token # rest)) = Next u"
    by (simp add: authenticateToken_def)
  then show g: "guarded allowed e db now (Some (scheme # token # rest)) = requireRole allowed (Some u)"
    by (simp add: guarded_def)
  show "(guarded allowed e db now (Some (scheme # token # rest)) = Next u) = (role u \<in> set allowed)"
    by (simp add: g requireRole_def)
qed

text \<open>
  Both directions across a token's lifetime: admin at issuance and patient now is refused;
  patient at issuance and admin now is let through.
\<close>

theorem guarded_decides_on_live_role_witness:
  "guarded [''admin''] example_env (example_db [seeded (Num 7) ''carol'' ''patient'']) 10
      (Some [Text ''Bearer'',
             Jws \<lparr>userId = Num 7, claim_email = ''carol@example.com'', claim_role = ''admin'',
                  iat = 0, expires = 604800\<rparr> ''secret''])
     = Respond (reply 403 False ''Access denied. Required role: admin'')
   \<and> guarded [''admin''] example_env (example_db [seeded (Num 7) ''carol'' ''admin'']) 10
      (Some [Text ''Bearer'',
             Jws \<lparr>userId = Num 7, claim_email = ''carol@example.com'', claim_role = ''patient'',
                  iat = 0, expires = 604800\<rparr> ''secret''])
     = Next (seeded (Num 7) ''carol'' ''admin'')"
proof -
  let ?c = "\<lambda>r. \<lparr>userId = Num 7, claim_email = ''carol@example.com'', claim_role = r,
                  iat = 0, expires = (604800::nat)\<rparr>"
  have v: "jwt_verify (Jws (?c r) ''secret'') (JWT_SECRET example_env) 10 = Inr (?c r)" for r
    by (simp add: jwt_verify_def signature_ok_def example_env_def)
  have f: "findByPk (example_db [seeded (Num 7) ''carol'' rl]) (userId (?c r))
             = Inr (Some (seeded (Num 7) ''carol'' rl))" for r rl
    by (simp add: findByPk_def example_db_def seeded_def)
  have 1: "guarded [''admin''] example_env (example_db [seeded (Num 7) ''carol'' ''patient'']) 10
             (Some [Text ''Bearer'', Jws (?c ''admin'') ''secret''])
           = requireRole [''admin''] (Some (seeded (Num 7) ''carol'' ''patient''))"
    using guarded_decides_on_live_role
      [where allowed = "[''admin'']" and e = example_env and now = 10
         and db = "example_db [seeded (Num 7) ''carol'' ''patient'']"
         and scheme = "Text ''Bearer''" and rest = "[]"
         and token = "Jws (?c ''admin'') ''secret''" and d = "?c ''admin''"
         and u = "seeded (Num 7) ''carol'' ''patient''"]
      v f by simp
  have 2: "guarded [''admin''] example_env (example_db [seeded (Num 7) ''carol'' ''admin'']) 10
             (Some [Text ''Bearer'', Jws (?c ''patient'') ''secret''])
           = requireRole [''admin''] (Some (seeded (Num 7) ''carol'' ''admin''))"
    using guarded_decides_on_live_role
      [where allowed = "[''admin'']" and e = example_env and now = 10
         and db = "example_db [seeded (Num 7) ''carol'' ''admin'']"
         and scheme = "Text ''Bearer''" and rest = "[]"
         and token = "Jws (?c ''patient'') ''secret''" and d = "?c ''patient''"
         and u = "seeded (Num 7) ''carol'' ''admin''"]
      v f by simp
  show ?thesis
    unfolding 1 2 by (simp add: requireRole_def seeded_def)
qed

section \<open>Rejected tokens\<close>

text \<open>
  What does hold of the rejections: with a secret configured, a token signed under it whose
  expiry has been reached is refused with 401 "Token expired"; a token signed under
  another key, and text the library refuses as no token, are refused with 401
  "Invalid token"; the two answers differ.
\<close>

lemma authenticateToken_rejections:
  "JWT_SECRET e = Some k \<and> k \<noteq> [] \<longrightarrow>
     (expires c \<le> now \<longrightarrow>
        jwt_verify (Jws c k) (JWT_SECRET e) now = Inl TokenExpiredError
        \<and> authenticateToken e db now (Some (scheme # Jws c k # rest))
            = Respond (reply 401 False ''Token expired''))
     \<and> (k' \<noteq> k \<longrightarrow>
        jwt_verify (Jws c k') (JWT_SECRET e) now = Inl JsonWebTokenError
        \<and> authenticateToken e db now (Some (scheme # Jws c k' # rest))
            = Respond (reply 401 False ''Invalid token''))
     \<and> (s \<noteq> [] \<longrightarrow>
        jwt_verify (Text s) (JWT_SECRET e) now = Inl JsonWebTokenError
        \<and> authenticateToken e db now (Some (scheme # Text s # rest))
            = Respond (reply 401 False ''Invalid token''))
     \<and> reply 401 False ''Token expired'' \<noteq> reply 401 False ''Invalid token''"
  by (simp add: authenticateToken_def jwt_verify_def signature_ok_def reply_def)

text \<open>
  Claim C3 fails at a token that cannot be parsed in one particular way: three well-formed
  parts, a token header, and a payload that is not JSON. The library lets the parser's
  \<open>SyntaxError\<close> out, the \<open>catch\<close> tests for neither that name, and the request is answered
  500 "Authentication error" where the claim says 401 "Invalid token".
\<close>

theorem authenticateToken_garbled_is_500:
  "jwt_verify (Garbled ''eyJhbGciOiJIUzI1NiIsInR5cCI6IkpXVCJ9.bm90IGpzb24.c2ln'')
       (JWT_SECRET example_env) 5 = Inl SyntaxError
   \<and> authenticateToken example_env (example_db []) 5
       (Some [Text ''Bearer'',
              Garbled ''eyJhbGciOiJIUzI1NiIsInR5cCI6IkpXVCJ9.bm90IGpzb24.c2ln''])
     = Respond (reply 500 False ''Authentication error'')
   \<and> reply 500 False ''Authentication error'' \<noteq> reply 401 False ''Invalid token''"
  by (simp add: authenticateToken_def jwt_verify_def reply_def)

section \<open>Issued tokens verify\<close>

text \<open>
  Claim C5: a token \<open>generateToken\<close> returns for a user verifies under the same secret at
  any time before its expiry, and the payload read back names the user's key, e-mail and
  role as they were at issuance. With no lifetime configured that includes the moment of
  issuance itself.
\<close>

theorem issued_token_verifies:
  "generateToken e now u = Inr t \<and> now' < now + expiresIn e \<longrightarrow>
     (\<exists>c. jwt_verify t (JWT_SECRET e) now' = Inr c
          \<and> userId c = user_id u \<and> claim_email c = email u \<and> claim_role c = role u)"
  by (auto simp: generateToken_def jwt_sign_def jwt_verify_def signature_ok_def split: option.splits if_splits)

theorem issued_token_verifies_witness:
  "generateToken example_env 1000 (seeded (Num 7) ''carol'' ''patient'')
     = Inr (Jws \<lparr>userId = Num 7, claim_email = ''carol@example.com'', claim_role = ''patient'',
                 iat = 1000, expires = 605800\<rparr> ''secret'')
   \<and> (\<exists>c. jwt_verify (Jws \<lparr>userId = Num 7, claim_email = ''carol@example.com'',
                           claim_role = ''patient'', iat = 1000, expires = 605800\<rparr> ''secret'')
              (JWT_SECRET example_env) 1000 = Inr c
          \<and> userId c = Num 7 \<and> claim_email c = ''carol@example.com''
          \<and> claim_role c = ''patient'')"
proof -
  have g: "generateToken example_env 1000 (seeded (Num 7) ''carol'' ''patient'')
     = Inr (Jws \<lparr>userId = Num 7, claim_email = ''carol@example.com'', claim_role = ''patient'',
                 iat = 1000, expires = 605800\<rparr> ''secret'')"
    by (simp add: generateToken_def jwt_sign_def example_env_def seeded_def expiresIn_def)
  have l: "(1000::nat) < 1000 + expiresIn example_env"
    by (simp add: expiresIn_def example_env_def)
  show ?thesis
    using issued_token_verifies [where e = example_env and now = 1000 and now' = 1000
        and u = "seeded (Num 7) ''carol'' ''patient''"] g l
    by (simp add: seeded_def)
qed

section \<open>Login failures\<close>

text \<open>
  When both the e-mail and the password are strings, a login for an e-mail no row has and
  a login for an e-mail some row has with a password the stored hash does not accept get
  the same response, field for field: status 401 and the message
  "Invalid email or password".
\<close>

lemma login_failures_identical:
  assumes "online db1" and "body_email b1 = Some (JStr e1)" and "e1 \<noteq> []"
    and "body_password b1 = Some (JStr p1)" and "p1 \<noteq> []"
    and "e1 \<notin> email ` set (rows db1)"
    and "online db2" and "body_email b2 = Some (JStr e2)" and "e2 \<noteq> []"
    and "body_password b2 = Some (JStr p2)" and "p2 \<noteq> []"
    and "find (\<lambda>u. email u = e2) (rows db2) = Some u"
    and "\<not> bcrypt_compare L p2 (password u)"
  shows "login L e now1 db1 b1 = login L e now2 db2 b2
         \<and> login L e now2 db2 b2 = reply 401 False ''Invalid email or password''"
proof -
  have "find (\<lambda>u. email u = e1) (rows db1) = None"
    using assms(6) by (auto simp: find_None_iff)
  then have 1: "login L e now1 db1 b1 = reply 401 False ''Invalid email or password''"
    using assms(1-5) by (simp add: login_def findOne_email_def)
  have 2: "login L e now2 db2 b2 = reply 401 False ''Invalid email or password''"
    using assms(7-13) by (simp add: login_def findOne_email_def validatePassword_def)
  show ?thesis by (simp add: 1 2)
qed

text \<open>
  Claim C6 fails when the password is a JSON value that is truthy and no string, the
  number 123 here. For an e-mail no row has, the handler answers 401 before it looks at the
  password; for carol's e-mail it hands the number to \<open>validatePassword\<close>, the comparison
  throws, and the \<open>catch\<close> answers 500: the two answers tell whether the e-mail exists.
\<close>

theorem login_number_password_tells_apart:
  "login stub_libs example_env 5 (example_db [seeded (Num 7) ''carol'' ''patient''])
       \<lparr>body_username = None, body_email = Some (JStr ''nobody@example.com''),
        body_password = Some (JNum 123), body_role = None\<rparr>
     = reply 401 False ''Invalid email or password''
   \<and> login stub_libs example_env 5 (example_db [seeded (Num 7) ''carol'' ''patient''])
       \<lparr>body_username = None, body_email = Some (JStr ''carol@example.com''),
        body_password = Some (JNum 123), body_role = None\<rparr>
     = reply 500 False ''Internal server error''
   \<and> reply 401 False ''Invalid email or password'' \<noteq> reply 500 False ''Internal server error''"
  by (simp add: login_def findOne_email_def validatePassword_def example_db_def seeded_def
      reply_def)

section \<open>The role gate\<close>

lemma join_carries:
  "r \<in> set rs \<Longrightarrow> \<exists>pre post. join sep rs = pre @ r @ post"
proof (induction sep rs rule: join.induct)
  case (1 sep)
  then show ?case by simp
next
  case (2 sep x)
  then have "join sep [x] = [] @ r @ []" by simp
  then show ?case by blast
next
  case (3 sep x y ys)
  show ?case
  proof (cases "r = x")
    case True
    then have "join sep (x # y # ys) = [] @ r @ (sep @ join sep (y # ys))" by simp
    then show ?thesis by blast
  next
    case False
    with 3 obtain pre post where "join sep (y # ys) = pre @ r @ post" by auto
    then have "join sep (x # y # ys) = (x @ sep @ pre) @ r @ post" by simp
    then show ?thesis by blast
  qed
qed

text \<open>
  Claim C7: \<open>requireRole\<close> lets a user through exactly when the user's role is a member of
  the allowed roles; a refusal is a 403 whose message contains every allowed role. A patient
  is refused by the admin-only gate and let through by the gate for admins and patients.
\<close>

theorem requireRole_membership:
  "(requireRole allowed (Some u) = Next u) = (role u \<in> set allowed)
   \<and> (role u \<notin> set allowed \<longrightarrow>
        (\<exists>msg. requireRole allowed (Some u) = Respond (reply 403 False msg)
           \<and> (\<forall>r \<in> set allowed. \<exists>pre post. msg = pre @ r @ post)))
   \<and> (role u = ''patient'' \<longrightarrow>
        requireRole [''admin''] (Some u)
          = Respond (reply 403 False ''Access denied. Required role: admin'')
        \<and> requireRole [''admin'', ''patient''] (Some u) = Next u)"
proof (intro conjI impI)
  show "(requireRole allowed (Some u) = Next u) = (role u \<in> set allowed)"
    by (simp add: requireRole_def)
next
  assume n: "role u \<notin> set allowed"
  have c: "\<forall>r \<in> set allowed. \<exists>pre post.
          ''Access denied. Required role: '' @ join '' or '' allowed = pre @ r @ post"
  proof
    fix r assume "r \<in> set allowed"
    then obtain pre post where "join '' or '' allowed = pre @ r @ post"
      using join_carries by blast
    then have "''Access denied. Required role: '' @ join '' or '' allowed
                 = (''Access denied. Required role: '' @ pre) @ r @ post"
      by simp
    then show "\<exists>pre post.
          ''Access denied. Required role: '' @ join '' or '' allowed = pre @ r @ post"
      by blast
  qed
  have "requireRole allowed (Some u)
          = Respond (reply 403 False (''Access denied. Required role: '' @ join '' or '' allowed))"
    using n by (simp add: requireRole_def)
  with c show "\<exists>msg. requireRole allowed (Some u) = Respond (reply 403 False msg)
           \<and> (\<forall>r \<in> set allowed. \<exists>pre post. msg = pre @ r @ post)"
    by blast
next
  assume "role u = ''patient''"
  then show "requireRole [''admin''] (Some u)
          = Respond (reply 403 False ''Access denied. Required role: admin'')"
    by (simp add: requireRole_def)
next
  assume "role u = ''patient''"
  then show "requireRole [''admin'', ''patient''] (Some u) = Next u"
    by (simp add: requireRole_def)
qed

theorem requireRole_membership_witness:
  "requireRole [''admin'', ''doctor''] (Some (seeded (Num 7) ''carol'' ''patient''))
     = Respond (reply 403 False ''Access denied. Required role: admin or doctor'')
   \<and> requireRole [''admin''] (Some (seeded (Num 7) ''carol'' ''patient''))
     = Respond (reply 403 False ''Access denied. Required role: admin'')
   \<and> requireRole [''admin'', ''patient''] (Some (seeded (Num 7) ''carol'' ''patient''))
     = Next (seeded (Num 7) ''carol'' ''patient'')"
proof -
  have p: "role (seeded (Num 7) ''carol'' ''patient'') = ''patient''"
    by (simp add: seeded_def)
  have "requireRole [''admin'', ''doctor''] (Some (seeded (Num 7) ''carol'' ''patient''))
     = Respond (reply 403 False ''Access denied. Required role: admin or doctor'')"
    by (simp add: requireRole_def seeded_def)
  then show ?thesis
    using requireRole_membership [where u = "seeded (Num 7) ''carol'' ''patient''"] p
    by simp
qed

section \<open>Registration\<close>

lemma register_missing:
  "falsy (body_username b) \<or> falsy (body_email b) \<or> falsy (body_password b) \<Longrightarrow>
     register L e now key db b
       = (db, reply 400 False ''Username, email, and password are required'')"
  by (auto simp: register_def falsy_def split: option.splits)

lemma validate_user_ok:
  "validate_user L un em pw rl = [] \<longleftrightarrow>
     3 \<le> length un \<and> length un \<le> 50 \<and> isEmail L em \<and> 6 \<le> length pw \<and> length pw \<le> 100
     \<and> rl \<in> {''admin'', ''patient'', ''doctor''}"
  by (auto simp: validate_user_def)

lemma create_strings_email_taken:
  assumes "validate_user L un em pw rl = []" and "online db"
    and "accepts_row db
           \<lparr>user_id = key, username = un, email = em,
            password = bcrypt_hash L pw (bcrypt_salt L (drawn db)), role = rl,
            createdAt = now, updatedAt = now\<rparr>"
    and "un \<notin> username ` set (rows db)" and "em \<in> email ` set (rows db)"
  shows "\<exists>db'. create_strings L now key db un em pw rl
            = (db', Inl (SequelizeUniqueConstraintError ''email'')) \<and> rows db' = rows db"
proof -
  from assms(1) have "pw \<noteq> []" by (auto simp: validate_user_ok)
  with assms show ?thesis
    by (simp add: create_strings_def beforeCreate_def Let_def)
qed

lemma create_strings_success:
  assumes "validate_user L un em pw rl = []" and "online db"
    and "accepts_row db
           \<lparr>user_id = key, username = un, email = em,
            password = bcrypt_hash L pw (bcrypt_salt L (drawn db)), role = rl,
            createdAt = now, updatedAt = now\<rparr>"
    and "un \<notin> username ` set (rows db)" and "em \<notin> email ` set (rows db)"
  shows "create_strings L now key db un em pw rl
            = (db\<lparr>drawn := Suc (drawn db),
                   rows := rows db @
                     [\<lparr>user_id = key, username = un, email = em,
                       password = bcrypt_hash L pw (bcrypt_salt L (drawn db)), role = rl,
                       createdAt = now, updatedAt = now\<rparr>]\<rparr>,
               Inr \<lparr>user_id = key, username = un, email = em,
                    password = bcrypt_hash L pw (bcrypt_salt L (drawn db)), role = rl,
                    createdAt = now, updatedAt = now\<rparr>)"
proof -
  from assms(1) have "pw \<noteq> []" by (auto simp: validate_user_ok)
  with assms show ?thesis
    by (simp add: create_strings_def beforeCreate_def Let_def)
qed

text \<open>
  Claim C8, amended. A request in which the user name, the e-mail or the password is absent
  or falsy gets 400 "Username, email, and password are required" and the store is returned
  as it was: \<open>User.create\<close> is not reached. A request whose user name, e-mail and password
  are strings that pass the model's validators (its role absent or a string that passes),
  whose user name is free and whose e-mail some row already has, sent while the database
  answers to a table whose columns accept the row, gets 400 "email already exists", and no
  row is written.
\<close>

theorem register_rejections:
  "(falsy (body_username b) \<or> falsy (body_email b) \<or> falsy (body_password b) \<longrightarrow>
      register L e now key db b
        = (db, reply 400 False ''Username, email, and password are required''))
   \<and> (body_username b = Some (JStr un) \<and> body_email b = Some (JStr em)
       \<and> body_password b = Some (JStr pw)
       \<and> or_default (body_role b) ''patient'' = JStr rl
       \<and> em \<noteq> [] \<and> validate_user L un em pw rl = []
       \<and> online db
       \<and> accepts_row db
            \<lparr>user_id = key, username = un, email = em,
             password = bcrypt_hash L pw (bcrypt_salt L (drawn db)), role = rl,
             createdAt = now, updatedAt = now\<rparr>
       \<and> un \<notin> username ` set (rows db) \<and> em \<in> email ` set (rows db) \<longrightarrow>
      snd (register L e now key db b) = reply 400 False ''email already exists''
      \<and> rows (fst (register L e now key db b)) = rows db)"
proof (intro conjI impI)
  assume "falsy (body_username b) \<or> falsy (body_email b) \<or> falsy (body_password b)"
  then show "register L e now key db b
        = (db, reply 400 False ''Username, email, and password are required'')"
    by (rule register_missing)
next
  assume a: "body_username b = Some (JStr un) \<and> body_email b = Some (JStr em)
       \<and> body_password b = Some (JStr pw)
       \<and> or_default (body_role b) ''patient'' = JStr rl
       \<and> em \<noteq> [] \<and> validate_user L un em pw rl = []
       \<and> online db
       \<and> accepts_row db
            \<lparr>user_id = key, username = un, email = em,
             password = bcrypt_hash L pw (bcrypt_salt L (drawn db)), role = rl,
             createdAt = now, updatedAt = now\<rparr>
       \<and> un \<notin> username ` set (rows db) \<and> em \<in> email ` set (rows db)"
  then have ne: "un \<noteq> []" "pw \<noteq> []" by (auto simp: validate_user_ok)
  from a obtain db' where c: "create_strings L now key db un em pw rl
            = (db', Inl (SequelizeUniqueConstraintError ''email''))" and r: "rows db' = rows db"
    using create_strings_email_taken [of L un em pw rl db key now] by blast
  have reg: "register L e now key db b = (db', reply 400 False ''email already exists'')"
    using a ne c by (simp add: register_def User_create_def)
  show "snd (register L e now key db b) = reply 400 False ''email already exists''"
    by (simp add: reg)
  show "rows (fst (register L e now key db b)) = rows db"
    by (simp add: reg r)
qed

theorem register_rejections_witness:
  "register stub_libs example_env 5 (Num 8) (example_db [seeded (Num 7) ''carol'' ''patient''])
       \<lparr>body_username = Some (JStr ''dave''), body_email = Some (JStr ''dave@example.com''),
        body_password = None, body_role = None\<rparr>
     = (example_db [seeded (Num 7) ''carol'' ''patient''],
        reply 400 False ''Username, email, and password are required'')
   \<and> snd (register stub_libs example_env 5 (Num 8)
             (example_db [seeded (Num 7) ''carol'' ''patient''])
             \<lparr>body_username = Some (JStr ''dave''),
              body_email = Some (JStr ''carol@example.com''),
              body_password = Some (JStr ''secret1''), body_role = None\<rparr>)
     = reply 400 False ''email already exists''
   \<and> rows (fst (register stub_libs example_env 5 (Num 8)
             (example_db [seeded (Num 7) ''carol'' ''patient''])
             \<lparr>body_username = Some (JStr ''dave''),
              body_email = Some (JStr ''carol@example.com''),
              body_password = Some (JStr ''secret1''), body_role = None\<rparr>))
     = [seeded (Num 7) ''carol'' ''patient'']"
proof -
  have v: "validate_user stub_libs ''dave'' ''carol@example.com'' ''secret1'' ''patient'' = []"
    by (simp add: validate_user_def stub_libs_def)
  show ?thesis
    using
      register_rejections
        [where b = "\<lparr>body_username = Some (JStr ''dave''),
                      body_email = Some (JStr ''dave@example.com''),
                      body_password = None, body_role = None\<rparr>"
           and L = stub_libs and e = example_env and now = 5 and key = "Num 8"
           and db = "example_db [seeded (Num 7) ''carol'' ''patient'']"]
      register_rejections
        [where b = "\<lparr>body_username = Some (JStr ''dave''),
                      body_email = Some (JStr ''carol@example.com''),
                      body_password = Some (JStr ''secret1''), body_role = None\<rparr>"
           and L = stub_libs and e = example_env and now = 5 and key = "Num 8"
           and db = "example_db [seeded (Num 7) ''carol'' ''patient'']"
           and un = "''dave''" and em = "''carol@example.com''" and pw = "''secret1''"
           and rl = "''patient''"]
      v
    by (simp add: falsy_def or_default_def example_db_def seeded_def)
qed

text \<open>
  Claim C8, as stated, promises the conflict answer for every request whose e-mail is in
  use. With carol's e-mail taken and all three fields present, four requests get another
  answer: one with a three-character password gets "Validation failed"; one that also
  asks for carol's user name gets "username already exists"; one sent to the migration's
  table, whose role column does not list \<open>patient\<close>, gets 500; and one sent while the
  database does not answer gets 500.
\<close>

theorem register_taken_email_other_answers:
  "''carol@example.com'' \<in> email ` set (rows (example_db [seeded (Num 7) ''carol'' ''patient'']))
   \<and> snd (register stub_libs example_env 5 (Num 8)
             (example_db [seeded (Num 7) ''carol'' ''patient''])
             \<lparr>body_username = Some (JStr ''dave''),
              body_email = Some (JStr ''carol@example.com''),
              body_password = Some (JStr ''abc''), body_role = None\<rparr>)
       = (reply 400 False ''Validation failed'')
           \<lparr>errors := Some [''Password must be at least 6 characters long'']\<rparr>
   \<and> snd (register stub_libs example_env 5 (Num 8)
             (example_db [seeded (Num 7) ''carol'' ''patient''])
             \<lparr>body_username = Some (JStr ''carol''),
              body_email = Some (JStr ''carol@example.com''),
              body_password = Some (JStr ''secret1''), body_role = None\<rparr>)
       = reply 400 False ''username already exists''
   \<and> snd (register stub_libs example_env 5 (Str ''6fa459ea-ee8a-3ca4-894e-db77e160355e'')
             (migrated_db [seeded (Str ''550e8400-e29b-41d4-a716-446655440000'')
                             ''carol'' ''staff''])
             \<lparr>body_username = Some (JStr ''dave''),
              body_email = Some (JStr ''carol@example.com''),
              body_password = Some (JStr ''secret1''), body_role = None\<rparr>)
       = reply 500 False ''Internal server error''
   \<and> snd (register stub_libs example_env 5 (Num 8)
             ((example_db [seeded (Num 7) ''carol'' ''patient''])\<lparr>online := False\<rparr>)
             \<lparr>body_username = Some (JStr ''dave''),
              body_email = Some (JStr ''carol@example.com''),
              body_password = Some (JStr ''secret1''), body_role = None\<rparr>)
       = reply 500 False ''Internal server error''
   \<and> ''Validation failed'' \<noteq> ''email already exists''
   \<and> ''username already exists'' \<noteq> ''email already exists''
   \<and> reply 500 False ''Internal server error'' \<noteq> reply 400 False ''email already exists''"
  by (simp add: register_def User_create_def create_strings_def validate_user_def
      beforeCreate_def stub_libs_def or_default_def example_db_def migrated_db_def seeded_def
      reply_def)

text \<open>
  Claim C10, as stated, has every role of the model's enumeration accepted. On the
  migration's table the role column lists \<open>admin\<close>, \<open>manager\<close> and \<open>staff\<close>: a valid
  registration that names no role, and one that asks for \<open>doctor\<close>, are answered 500 and
  no row is written.
\<close>

theorem register_on_migrated_table_is_500:
  "snd (register stub_libs example_env 5 (Str ''6fa459ea-ee8a-3ca4-894e-db77e160355e'')
          (migrated_db [])
          \<lparr>body_username = Some (JStr ''mallory''),
           body_email = Some (JStr ''mallory@example.com''),
           body_password = Some (JStr ''secret1''), body_role = None\<rparr>)
     = reply 500 False ''Internal server error''
   \<and> rows (fst (register stub_libs example_env 5 (Str ''6fa459ea-ee8a-3ca4-894e-db77e160355e'')
          (migrated_db [])
          \<lparr>body_username = Some (JStr ''mallory''),
           body_email = Some (JStr ''mallory@example.com''),
           body_password = Some (JStr ''secret1''), body_role = None\<rparr>)) = []
   \<and> snd (register stub_libs example_env 5 (Str ''6fa459ea-ee8a-3ca4-894e-db77e160355e'')
          (migrated_db [])
          \<lparr>body_username = Some (JStr ''mallory''),
           body_email = Some (JStr ''mallory@example.com''),
           body_password = Some (JStr ''secret1''), body_role = Some (JStr ''doctor'')\<rparr>)
     = reply 500 False ''Internal server error''
   \<and> rows (fst (register stub_libs example_env 5 (Str ''6fa459ea-ee8a-3ca4-894e-db77e160355e'')
          (migrated_db [])
          \<lparr>body_username = Some (JStr ''mallory''),
           body_email = Some (JStr ''mallory@example.com''),
           body_password = Some (JStr ''secret1''), body_role = Some (JStr ''doctor'')\<rparr>)) = []"
  by (simp add: register_def User_create_def create_strings_def validate_user_def
      beforeCreate_def stub_libs_def or_default_def migrated_db_def)

text \<open>
  Claim C10, amended: while the database answers, with a signing secret configured and on
  a table whose columns accept the row (its role column lists the role, as on the table
  made from the model), a registration whose user name, e-mail and password are strings
  that pass the model's validators and are not in use succeeds with 201 whatever role of
  the enumeration it asks for, \<open>admin\<close> included: the row written and the token returned
  both carry that role, and \<open>patient\<close> when the request names no role.
\<close>

theorem register_takes_requested_role:
  assumes "body_username b = Some (JStr un)" and "body_email b = Some (JStr em)"
    and "body_password b = Some (JStr pw)"
    and "3 \<le> length un" and "length un \<le> 50" and "em \<noteq> []" and "isEmail L em"
    and "6 \<le> length pw" and "length pw \<le> 100"
    and "online db" and "un \<notin> username ` set (rows db)" and "em \<notin> email ` set (rows db)"
    and "JWT_SECRET e = Some k" and "k \<noteq> []"
    and "falsy (body_role b) \<and> r = ''patient''
         \<or> body_role b = Some (JStr r) \<and> r \<in> {''admin'', ''doctor'', ''patient''}"
    and "accepts_row db
           \<lparr>user_id = key, username = un, email = em,
            password = bcrypt_hash L pw (bcrypt_salt L (drawn db)), role = r,
            createdAt = now, updatedAt = now\<rparr>"
  shows "\<exists>u c db'. register L e now key db b
            = (db', (reply 201 True ''User registered successfully'')
                      \<lparr>data := Some (toJSON u, Jws c k)\<rparr>)
          \<and> rows db' = rows db @ [u] \<and> role u = r
          \<and> userId c = user_id u \<and> claim_role c = r"
proof -
  have rl: "or_default (body_role b) ''patient'' = JStr r"
    and rin: "r \<in> {''admin'', ''patient'', ''doctor''}"
    using assms(15) by (auto simp: or_default_def falsy_def split: option.splits)
  have v: "validate_user L un em pw r = []"
    using assms(4-9) rin by (simp add: validate_user_ok)
  let ?u = "\<lparr>user_id = key, username = un, email = em,
              password = bcrypt_hash L pw (bcrypt_salt L (drawn db)), role = r,
              createdAt = now, updatedAt = now\<rparr>"
  let ?c = "\<lparr>userId = key, claim_email = em, claim_role = r, iat = now,
              expires = now + expiresIn e\<rparr>"
  have c: "create_strings L now key db un em pw r
            = (db\<lparr>drawn := Suc (drawn db), rows := rows db @ [?u]\<rparr>, Inr ?u)"
    by (rule create_strings_success [OF v assms(10) assms(16) assms(11) assms(12)])
  have g: "generateToken e now ?u = Inr (Jws ?c k)"
    using assms(13,14) by (simp add: generateToken_def jwt_sign_def)
  have ne: "un \<noteq> []" "pw \<noteq> []" using assms(4,8) by auto
  have "register L e now key db b
          = (db\<lparr>drawn := Suc (drawn db), rows := rows db @ [?u]\<rparr>,
             (reply 201 True ''User registered successfully'')
                \<lparr>data := Some (toJSON ?u, Jws ?c k)\<rparr>)"
    using assms(1-3,6) ne rl c g by (simp add: register_def User_create_def)
  then show ?thesis
    by (intro exI [where x = ?u] exI [where x = ?c]
          exI [where x = "db\<lparr>drawn := Suc (drawn db), rows := rows db @ [?u]\<rparr>"]) simp
qed

theorem register_takes_requested_role_witness:
  "(\<exists>u c db'. register stub_libs example_env 5 (Num 8)
                 (example_db [seeded (Num 7) ''carol'' ''patient''])
                 \<lparr>body_username = Some (JStr ''mallory''),
                  body_email = Some (JStr ''mallory@example.com''),
                  body_password = Some (JStr ''secret1''),
                  body_role = Some (JStr ''admin'')\<rparr>
            = (db', (reply 201 True ''User registered successfully'')
                      \<lparr>data := Some (toJSON u, Jws c ''secret'')\<rparr>)
          \<and> rows db' = rows (example_db [seeded (Num 7) ''carol'' ''patient'']) @ [u]
          \<and> role u = ''admin'' \<and> userId c = user_id u \<and> claim_role c = ''admin'')
   \<and> (\<exists>u c db'. register stub_libs example_env 5 (Num 8)
                 (example_db [seeded (Num 7) ''carol'' ''patient''])
                 \<lparr>body_username = Some (JStr ''mallory''),
                  body_email = Some (JStr ''mallory@example.com''),
                  body_password = Some (JStr ''secret1''), body_role = None\<rparr>
            = (db', (reply 201 True ''User registered successfully'')
                      \<lparr>data := Some (toJSON u, Jws c ''secret'')\<rparr>)
          \<and> rows db' = rows (example_db [seeded (Num 7) ''carol'' ''patient'']) @ [u]
          \<and> role u = ''patient'' \<and> userId c = user_id u \<and> claim_role c = ''patient'')"
proof
  show "\<exists>u c db'. register stub_libs example_env 5 (Num 8)
                 (example_db [seeded (Num 7) ''carol'' ''patient''])
                 \<lparr>body_username = Some (JStr ''mallory''),
                  body_email = Some (JStr ''mallory@example.com''),
                  body_password = Some (JStr ''secret1''),
                  body_role = Some (JStr ''admin'')\<rparr>
            = (db', (reply 201 True ''User registered successfully'')
                      \<lparr>data := Some (toJSON u, Jws c ''secret'')\<rparr>)
          \<and> rows db' = rows (example_db [seeded (Num 7) ''carol'' ''patient'']) @ [u]
          \<and> role u = ''admin'' \<and> userId c = user_id u \<and> claim_role c = ''admin''"
    by (rule register_takes_requested_role
          [where un = "''mallory''" and em = "''mallory@example.com''" and pw = "''secret1''"])
       (simp_all add: stub_libs_def example_env_def example_db_def seeded_def falsy_def)
  show "\<exists>u c db'. register stub_libs example_env 5 (Num 8)
                 (example_db [seeded (Num 7) ''carol'' ''patient''])
                 \<lparr>body_username = Some (JStr ''mallory''),
                  body_email = Some (JStr ''mallory@example.com''),
                  body_password = Some (JStr ''secret1''), body_role = None\<rparr>
            = (db', (reply 201 True ''User registered successfully'')
                      \<lparr>data := Some (toJSON u, Jws c ''secret'')\<rparr>)
          \<and> rows db' = rows (example_db [seeded (Num 7) ''carol'' ''patient'']) @ [u]
          \<and> role u = ''patient'' \<and> userId c = user_id u \<and> claim_role c = ''patient''"
    by (rule register_takes_requested_role
          [where un = "''mallory''" and em = "''mallory@example.com''" and pw = "''secret1''"])
       (simp_all add: stub_libs_def example_env_def example_db_def seeded_def falsy_def)
qed

section \<open>Hashing on update\<close>

text \<open>
  Claim C9, amended: \<open>beforeUpdate\<close> draws a salt and hashes exactly when the ORM has the
  password key marked as changed. Then the stored value becomes the hash of the instance's
  current value under the fresh salt; otherwise the instance, its stored hash included,
  and the generator are returned as they were. One assignment of a password to a freshly
  loaded instance marks the key exactly when the value differs from the stored one.
\<close>

theorem beforeUpdate_hashes_iff_changed:
  "(snd (beforeUpdate L (i, g)) \<noteq> g) = changed i ''password''
   \<and> (changed i ''password'' \<longrightarrow>
        beforeUpdate L (i, g)
          = (i\<lparr>dataValues := (dataValues i)
                 \<lparr>password := bcrypt_hash L (password (dataValues i)) (bcrypt_salt L g)\<rparr>\<rparr>,
             Suc g))
   \<and> (\<not> changed i ''password'' \<longrightarrow> beforeUpdate L (i, g) = (i, g))
   \<and> changed (set_password (loaded u) v) ''password'' = (v \<noteq> password u)
   \<and> (v \<noteq> password u \<longrightarrow>
        password (dataValues (fst (beforeUpdate L (set_password (loaded u) v, g))))
          = bcrypt_hash L v (bcrypt_salt L g))
   \<and> password (dataValues (fst (beforeUpdate L (loaded u, g)))) = password u"
  by (simp add: beforeUpdate_def changed_def set_password_def loaded_def)

theorem beforeUpdate_hashes_iff_changed_witness:
  "beforeUpdate stub_libs (set_password (loaded (seeded (Num 7) ''carol'' ''patient'')) ''secret2'', 0)
     = (\<lparr>dataValues = (seeded (Num 7) ''carol'' ''patient'')\<lparr>password := ''ssecret2''\<rparr>,
         changedKeys = [''password'']\<rparr>, 1)
   \<and> beforeUpdate stub_libs (loaded (seeded (Num 7) ''carol'' ''patient''), 0)
     = (loaded (seeded (Num 7) ''carol'' ''patient''), 0)"
proof -
  let ?i = "set_password (loaded (seeded (Num 7) ''carol'' ''patient'')) ''secret2''"
  have c: "changed ?i ''password''"
    by (simp add: changed_def set_password_def loaded_def seeded_def)
  have n: "\<not> changed (loaded (seeded (Num 7) ''carol'' ''patient'')) ''password''"
    by (simp add: changed_def loaded_def)
  show ?thesis
    using beforeUpdate_hashes_iff_changed [where L = stub_libs and i = ?i and g = 0] c
      beforeUpdate_hashes_iff_changed
        [where L = stub_libs and i = "loaded (seeded (Num 7) ''carol'' ''patient'')" and g = 0] n
    by (simp add: set_password_def loaded_def seeded_def stub_libs_def)
qed

text \<open>
  Claim C9, as stated, ties the hasher to whether the write changes the password value.
  The hook follows the mark, and the mark stays once set: a write that assigns a new
  password and then assigns the stored hash back leaves the value as it was, yet the key is
  marked and the hook replaces the stored hash by a hash of it.
\<close>

theorem beforeUpdate_rehashes_value_set_back:
  "password (dataValues (set_password
       (set_password (loaded (seeded (Num 7) ''carol'' ''patient'')) ''secret2'')
       ''$2a$10$seed''))
     = password (seeded (Num 7) ''carol'' ''patient'')
   \<and> changed (set_password
       (set_password (loaded (seeded (Num 7) ''carol'' ''patient'')) ''secret2'')
       ''$2a$10$seed'') ''password''
   \<and> beforeUpdate stub_libs
        (set_password
           (set_password (loaded (seeded (Num 7) ''carol'' ''patient'')) ''secret2'')
           ''$2a$10$seed'', 0)
     = (\<lparr>dataValues = (seeded (Num 7) ''carol'' ''patient'')\<lparr>password := ''s$2a$10$seed''\<rparr>,
         changedKeys = [''password'', ''password'']\<rparr>, 1)
   \<and> ''s$2a$10$seed'' \<noteq> password (seeded (Num 7) ''carol'' ''patient'')"
  by (simp add: beforeUpdate_def changed_def set_password_def loaded_def seeded_def
      stub_libs_def)

end
